theory Spec2Isabelle
  imports Complex_Main "HOL-Library.Sublist"
begin

section \<open>Result card: confidence colouring (ResultCard.tsx)\<close>

text \<open>
  JavaScript numbers are modelled as reals: the code only compares the confidence with
  the literals 0.8, 0.5 and 0.2, and a comparison of two doubles is the comparison of the
  reals they denote. The confidence comes out of a parsed JSON body, which cannot hold NaN.
\<close>

text \<open>
  \<^verbatim>\<open>
  const getConfidenceColor = (confidence: number, isFraud: boolean) => {
    if (isFraud) {
      if (confidence > 0.8) return 'from-red-500 to-rose-600'
      if (confidence > 0.5) return 'from-orange-500 to-amber-600'
      return 'from-yellow-500 to-amber-500'
    } else {
      if (confidence < 0.2) return 'from-emerald-500 to-green-600'
      if (confidence < 0.5) return 'from-teal-500 to-emerald-500'
      return 'from-blue-500 to-cyan-500'
    }
  }
  \<close>
\<close>

definition ResultCard_getConfidenceColor :: "real \<Rightarrow> bool \<Rightarrow> string" where
  "ResultCard_getConfidenceColor confidence isFraud =
     (if isFraud then
        (if confidence > 0.8 then ''from-red-500 to-rose-600''
         else if confidence > 0.5 then ''from-orange-500 to-amber-600''
         else ''from-yellow-500 to-amber-500'')
      else
        (if confidence < 0.2 then ''from-emerald-500 to-green-600''
         else if confidence < 0.5 then ''from-teal-500 to-emerald-500''
         else ''from-blue-500 to-cyan-500''))"

text \<open>
  The specification's reading of the same function: six named severity tiers, selected
  by the stated thresholds, and the gradient each tier is drawn with.
\<close>

datatype severity = High | Medium | Low | VerySafe | Safe | BorderlineSafe

definition spec_severity :: "bool \<Rightarrow> real \<Rightarrow> severity" where
  "spec_severity fraud confidence =
     (if fraud then
        (if confidence > 0.8 then High else if confidence > 0.5 then Medium else Low)
      else
        (if confidence < 0.2 then VerySafe else if confidence < 0.5 then Safe
         else BorderlineSafe))"

fun severity_gradient :: "severity \<Rightarrow> string" where
  "severity_gradient High = ''from-red-500 to-rose-600''"
| "severity_gradient Medium = ''from-orange-500 to-amber-600''"
| "severity_gradient Low = ''from-yellow-500 to-amber-500''"
| "severity_gradient VerySafe = ''from-emerald-500 to-green-600''"
| "severity_gradient Safe = ''from-teal-500 to-emerald-500''"
| "severity_gradient BorderlineSafe = ''from-blue-500 to-cyan-500''"

section \<open>History table: confidence colouring (TransactionHistory.tsx)\<close>

text \<open>
  \<^verbatim>\<open>
  const getConfidenceColor = (confidence: number, isFraud: boolean) => {
    if (isFraud) {
      if (confidence > 0.8) return 'text-red-600 dark:text-red-400'
      if (confidence > 0.5) return 'text-orange-600 dark:text-orange-400'
      return 'text-yellow-600 dark:text-yellow-400'
    }
    return 'text-emerald-600 dark:text-emerald-400'
  }
  \<close>
\<close>

definition TransactionHistory_getConfidenceColor :: "real \<Rightarrow> bool \<Rightarrow> string" where
  "TransactionHistory_getConfidenceColor confidence isFraud =
     (if isFraud then
        (if confidence > 0.8 then ''text-red-600 dark:text-red-400''
         else if confidence > 0.5 then ''text-orange-600 dark:text-orange-400''
         else ''text-yellow-600 dark:text-yellow-400'')
      else ''text-emerald-600 dark:text-emerald-400'')"

section \<open>JavaScript library functions used by the components\<close>

text \<open>
  \<open>Array.prototype.slice(start, end)\<close> and \<open>String.prototype.slice\<close>: a negative index
  counts from the end, both indices are clamped to the length, and an empty range gives
  the empty list.
\<close>

definition js_slice :: "'a list \<Rightarrow> int \<Rightarrow> int \<Rightarrow> 'a list" where
  "js_slice xs start end =
     (let n = int (length xs);
          k = (if start < 0 then max (n + start) 0 else min start n);
          final = (if end < 0 then max (n + end) 0 else min end n)
      in take (nat (final - k)) (drop (nat k) xs))"

text \<open>\<open>String.prototype.substring(a, b)\<close> on non-negative indices: clamped, and swapped
  when out of order.\<close>

definition js_substring :: "string \<Rightarrow> nat \<Rightarrow> nat \<Rightarrow> string" where
  "js_substring s a b =
     (let n = length s; a' = min a n; b' = min b n;
          lo = min a' b'; hi = max a' b'
      in take (hi - lo) (drop lo s))"

text \<open>\<open>toLowerCase\<close>, on the ASCII letters (a \<open>string\<close> is a list of bytes here).\<close>

definition toLowerChar :: "char \<Rightarrow> char" where
  "toLowerChar c =
     (if 65 \<le> (of_char c :: nat) \<and> (of_char c :: nat) \<le> 90 then
        (case c of Char b0 b1 b2 b3 b4 b5 b6 b7 \<Rightarrow> Char b0 b1 b2 b3 b4 True b6 b7)
      else c)"

definition toLowerCase :: "string \<Rightarrow> string" where
  "toLowerCase s = map toLowerChar s"

text \<open>\<open>s.includes(q)\<close>: a left-to-right search for an occurrence of \<open>q\<close> in \<open>s\<close>.\<close>

fun js_includes :: "string \<Rightarrow> string \<Rightarrow> bool" where
  "js_includes [] q = (q = [])"
| "js_includes (c # cs) q = (prefix q (c # cs) \<or> js_includes cs q)"

text \<open>The decimal rendering of a non-negative integer, as a template literal prints it.\<close>

definition digit_char :: "nat \<Rightarrow> char" where
  "digit_char d = ''0123456789'' ! (d mod 10)"

function string_of_nat :: "nat \<Rightarrow> string" where
  "string_of_nat n =
     (if n < 10 then [digit_char n] else string_of_nat (n div 10) @ [digit_char (n mod 10)])"
  by pat_completeness auto
termination
  by (relation "measure (\<lambda>n. n)") auto

declare string_of_nat.simps [simp del]

text \<open>
  \<open>x.toFixed(1)\<close>: the sign first, then the integer \<open>n\<close> with \<open>n / 10\<close> nearest to the
  magnitude (the larger one on a tie), printed with one decimal. From \<open>10^21\<close> on the
  language falls back to its general number printing, which is the parameter \<open>toString\<close>.
\<close>

definition toFixed1 :: "(real \<Rightarrow> string) \<Rightarrow> real \<Rightarrow> string" where
  "toFixed1 toString x =
     (if \<bar>x\<bar> \<ge> 10 ^ 21 then toString x
      else
        (let n = nat \<lfloor>\<bar>x\<bar> * 10 + 1 / 2\<rfloor>
         in (if x < 0 then ''-'' else '''')
            @ string_of_nat (n div 10) @ ''.'' @ [digit_char (n mod 10)]))"

text \<open>\<open>x || d\<close> on a number: zero is falsy. \<open>x || d\<close> on a field of a parsed body that
  may be missing: a missing field is falsy too.\<close>

definition num_or :: "'a::zero \<Rightarrow> 'a \<Rightarrow> 'a" where
  "num_or x d = (if x = 0 then d else x)"


text \<open>
  The outcome of \<open>await fetch(...)\<close> followed by \<open>await response.json()\<close>: the fetch
  rejects (transport failure), or resolves to a response with a status whose body either
  fails to parse or parses to a value. \<open>response.ok\<close> holds for the statuses 200 to 299.
\<close>

datatype 'a json_result = JsonError | JsonValue 'a

datatype 'a fetch_result = FetchRejected | FetchResponse nat "'a json_result"

definition response_ok :: "nat \<Rightarrow> bool" where
  "response_ok status = (200 \<le> status \<and> status \<le> 299)"

section \<open>Application shell: the prediction exchange (App.tsx)\<close>

record prediction_result =
  fraud :: bool
  confidence :: real
  message :: string
  transaction_id :: "string option"
  timestamp :: "string option"

record stats =
  totalPredictions :: int
  fraudCount :: int
  safeCount :: int
  fraudPercentage :: real


datatype toast = ToastSuccess string | ToastError string

record app_state =
  prediction :: "prediction_result option"
  isLoading :: bool
  stats :: stats
  toasts :: "toast list"






section \<open>Result card: the transaction id row (ResultCard.tsx)\<close>

text \<open>
  \<^verbatim>\<open>
  {prediction.transaction_id && (
     ... <code>{prediction.transaction_id.slice(0, 16)}...</code> ...
  )}
  \<close>
  The row is rendered only for a present, non-empty id (\<open>None\<close>: no row); its text is the
  slice followed by three literal dots.
\<close>

definition transaction_id_text :: "prediction_result \<Rightarrow> string option" where
  "transaction_id_text p =
     (case prediction_result.transaction_id p of
        None \<Rightarrow> None
      | Some i \<Rightarrow> if i = [] then None else Some (js_slice i 0 16 @ ''...''))"

text \<open>
  \<^verbatim>\<open>
  const copyTransactionId = () => {
    if (prediction?.transaction_id) {
      navigator.clipboard.writeText(prediction.transaction_id)
      setCopied(true)
      setTimeout(() => setCopied(false), 2000)
    }
  }
  \<close>
  The clipboard is part of the state; the timer's callback is \<open>copied_timeout\<close>.
\<close>

record card_state =
  clipboard :: string
  copied :: bool

definition copyTransactionId :: "prediction_result option \<Rightarrow> card_state \<Rightarrow> card_state" where
  "copyTransactionId p s =
     (case p of
        None \<Rightarrow> s
      | Some r \<Rightarrow>
          (case prediction_result.transaction_id r of
             None \<Rightarrow> s
           | Some i \<Rightarrow> if i = [] then s else s\<lparr>clipboard := i, copied := True\<rparr>))"

definition copied_timeout :: "card_state \<Rightarrow> card_state" where
  "copied_timeout s = s\<lparr>copied := False\<rparr>"

section \<open>Form collector (PredictionForm.tsx)\<close>

text \<open>
  The draft is a JavaScript object, modelled as the list of its (key, value) pairs in
  insertion order. \<open>{ ...obj, [field]: value }\<close> overwrites the key where it stands, or
  adds it at the end when the object does not have it; \<open>Object.values\<close> lists the values.
\<close>

type_synonym form_data = "(string \<times> real) list"

fun obj_set :: "(string \<times> 'a) list \<Rightarrow> string \<Rightarrow> 'a \<Rightarrow> (string \<times> 'a) list" where
  "obj_set [] k v = [(k, v)]"
| "obj_set ((k', v') # kvs) k v =
     (if k' = k then (k, v) # kvs else (k', v') # obj_set kvs k v)"

definition Object_values :: "(string \<times> 'a) list \<Rightarrow> 'a list" where
  "Object_values obj = map snd obj"

definition defaultValues :: form_data where
  "defaultValues =
     [(''time'', 0),
      (''v1'', 0), (''v2'', 0), (''v3'', 0), (''v4'', 0), (''v5'', 0),
      (''v6'', 0), (''v7'', 0), (''v8'', 0), (''v9'', 0), (''v10'', 0),
      (''v11'', 0), (''v12'', 0), (''v13'', 0), (''v14'', 0), (''v15'', 0),
      (''v16'', 0), (''v17'', 0), (''v18'', 0), (''v19'', 0), (''v20'', 0),
      (''v21'', 0), (''v22'', 0), (''v23'', 0), (''v24'', 0), (''v25'', 0),
      (''v26'', 0), (''v27'', 0), (''v28'', 0),
      (''amount'', 100)]"

record form_state =
  formData :: form_data
  showAdvanced :: bool
  fillProgress :: real

text \<open>The three \<open>useState\<close> initial values.\<close>

definition initial_form_state :: form_state where
  "initial_form_state = \<lparr>formData = defaultValues, showAdvanced = False, fillProgress = 0\<rparr>"

text \<open>
  \<^verbatim>\<open>
  const handleChange = (field: string, value: number) => {
    setFormData(prev => ({ ...prev, [field]: value }))
    // Calculate fill progress
    const filled = Object.values({ ...formData, [field]: value }).filter(v => v !== 0).length
    setFillProgress((filled / 30) * 100)
  }
  \<close>
\<close>

definition handleChange :: "string \<Rightarrow> real \<Rightarrow> form_state \<Rightarrow> form_state" where
  "handleChange field v s =
     (let filled = length (filter (\<lambda>x. x \<noteq> 0) (Object_values (obj_set (formData s) field v)))
      in s\<lparr>formData := obj_set (formData s) field v,
           fillProgress := (real filled / 30) * 100\<rparr>)"

text \<open>
  \<^verbatim>\<open>
  const handleReset = () => {
    setFormData(defaultValues)
    setFillProgress(0)
  }
  \<close>
\<close>

definition handleReset :: "form_state \<Rightarrow> form_state" where
  "handleReset s = s\<lparr>formData := defaultValues, fillProgress := 0\<rparr>"

text \<open>
  \<open>fillRandomData\<close> draws \<open>Math.random()\<close> thirty times, in the order of the fields;
  \<open>rnd i\<close> is the \<open>i\<close>-th draw. \<open>time\<close> is the draw times 172792, each \<open>v\<close> field is
  \<open>(draw - 0.5) * 4\<close>, \<open>amount\<close> is the draw times 1000; the progress is set to 100.
\<close>

definition randomData :: "(nat \<Rightarrow> real) \<Rightarrow> form_data" where
  "randomData rnd =
     [(''time'', rnd 0 * 172792),
      (''v1'', (rnd 1 - 0.5) * 4), (''v2'', (rnd 2 - 0.5) * 4), (''v3'', (rnd 3 - 0.5) * 4),
      (''v4'', (rnd 4 - 0.5) * 4), (''v5'', (rnd 5 - 0.5) * 4), (''v6'', (rnd 6 - 0.5) * 4),
      (''v7'', (rnd 7 - 0.5) * 4), (''v8'', (rnd 8 - 0.5) * 4), (''v9'', (rnd 9 - 0.5) * 4),
      (''v10'', (rnd 10 - 0.5) * 4), (''v11'', (rnd 11 - 0.5) * 4),
      (''v12'', (rnd 12 - 0.5) * 4), (''v13'', (rnd 13 - 0.5) * 4),
      (''v14'', (rnd 14 - 0.5) * 4), (''v15'', (rnd 15 - 0.5) * 4),
      (''v16'', (rnd 16 - 0.5) * 4), (''v17'', (rnd 17 - 0.5) * 4),
      (''v18'', (rnd 18 - 0.5) * 4), (''v19'', (rnd 19 - 0.5) * 4),
      (''v20'', (rnd 20 - 0.5) * 4), (''v21'', (rnd 21 - 0.5) * 4),
      (''v22'', (rnd 22 - 0.5) * 4), (''v23'', (rnd 23 - 0.5) * 4),
      (''v24'', (rnd 24 - 0.5) * 4), (''v25'', (rnd 25 - 0.5) * 4),
      (''v26'', (rnd 26 - 0.5) * 4), (''v27'', (rnd 27 - 0.5) * 4),
      (''v28'', (rnd 28 - 0.5) * 4),
      (''amount'', rnd 29 * 1000)]"

definition fillRandomData :: "(nat \<Rightarrow> real) \<Rightarrow> form_state \<Rightarrow> form_state" where
  "fillRandomData rnd s = s\<lparr>formData := randomData rnd, fillProgress := 100\<rparr>"

text \<open>
  The events of the form that touch the draft: an edit of one input (the inputs rendered
  are \<open>time\<close>, \<open>amount\<close> and \<open>v1\<close> to \<open>v28\<close>, the keys of \<open>defaultValues\<close>), the Reset
  button and the Random button.
\<close>

datatype form_event = Change string real | Reset | Random "nat \<Rightarrow> real"

fun form_step :: "form_state \<Rightarrow> form_event \<Rightarrow> form_state" where
  "form_step s (Change field v) = handleChange field v s"
| "form_step s Reset = handleReset s"
| "form_step s (Random rnd) = fillRandomData rnd s"

definition form_run :: "form_event list \<Rightarrow> form_state" where
  "form_run es = foldl form_step initial_form_state es"

fun rendered_input :: "form_event \<Rightarrow> bool" where
  "rendered_input (Change field v) = (field \<in> set (map fst defaultValues))"
| "rendered_input Reset = True"
| "rendered_input (Random rnd) = True"

text \<open>The percentage the specification states: 100 times the number of fields whose
  value is not 0, over 30.\<close>

definition spec_completion :: "form_data \<Rightarrow> real" where
  "spec_completion d = 100 * real (length (filter (\<lambda>kv. snd kv \<noteq> 0) d)) / 30"

section \<open>History view (TransactionHistory.tsx)\<close>

record input_features =
  amount :: "real option"
  time :: "real option"

text \<open>The field \<open>_id\<close> of the source is \<open>id'\<close> here. The optional chaining of the source
  (\<open>tx.transaction_id?.toLowerCase()\<close>) allows a record without \<open>transaction_id\<close>.\<close>

record transaction =
  id' :: string
  transaction_id :: "string option"
  prediction :: bool
  confidence :: real
  timestamp :: "string option"
  input_features :: "input_features option"

datatype filter_kind = All | Fraud | SafeOnly

record history_state =
  transactions :: "transaction list"
  loading :: bool
  filter_sel :: filter_kind
  searchQuery :: string
  currentPage :: int

definition initial_history_state :: history_state where
  "initial_history_state =
     \<lparr>transactions = [], loading = True, filter_sel = All, searchQuery = [], currentPage = 1\<rparr>"

definition itemsPerPage :: int where
  "itemsPerPage = 10"

text \<open>
  \<^verbatim>\<open>
  const filteredTransactions = transactions.filter(tx => {
    const matchesFilter = filter === 'all' ||
      (filter === 'fraud' && tx.prediction) ||
      (filter === 'safe' && !tx.prediction)
    const matchesSearch = searchQuery === '' ||
      tx.transaction_id?.toLowerCase().includes(searchQuery.toLowerCase())
    return matchesFilter && matchesSearch
  })
  \<close>
\<close>

definition matchesFilter :: "filter_kind \<Rightarrow> transaction \<Rightarrow> bool" where
  "matchesFilter f tx =
     (f = All \<or> (f = Fraud \<and> transaction.prediction tx)
      \<or> (f = SafeOnly \<and> \<not> transaction.prediction tx))"

definition matchesSearch :: "string \<Rightarrow> transaction \<Rightarrow> bool" where
  "matchesSearch q tx =
     (q = [] \<or>
      (case transaction.transaction_id tx of
         None \<Rightarrow> False
       | Some i \<Rightarrow> js_includes (toLowerCase i) (toLowerCase q)))"

definition filterTransactions :: "filter_kind \<Rightarrow> string \<Rightarrow> transaction list \<Rightarrow> transaction list" where
  "filterTransactions f q txs = filter (\<lambda>tx. matchesFilter f tx \<and> matchesSearch q tx) txs"

definition filteredTransactions :: "history_state \<Rightarrow> transaction list" where
  "filteredTransactions s = filterTransactions (filter_sel s) (searchQuery s) (transactions s)"

text \<open>
  \<^verbatim>\<open>
  const totalPages = Math.ceil(filteredTransactions.length / itemsPerPage)
  const paginatedTransactions = filteredTransactions.slice(
    (currentPage - 1) * itemsPerPage,
    currentPage * itemsPerPage
  )
  \<close>
\<close>

definition pageCount :: "'a list \<Rightarrow> int" where
  "pageCount xs = \<lceil>real (length xs) / real_of_int itemsPerPage\<rceil>"

definition pageOf :: "'a list \<Rightarrow> int \<Rightarrow> 'a list" where
  "pageOf xs p = js_slice xs ((p - 1) * itemsPerPage) (p * itemsPerPage)"

definition totalPages :: "history_state \<Rightarrow> int" where
  "totalPages s = pageCount (filteredTransactions s)"

definition paginatedTransactions :: "history_state \<Rightarrow> transaction list" where
  "paginatedTransactions s = pageOf (filteredTransactions s) (currentPage s)"

text \<open>
  What \<open>generateMockTransactions\<close> reads from its environment: the successive draws of
  \<open>Math.random()\<close> (six per record, in the order the fields are written), \<open>Date.now()\<close>
  at each record, the base-36 printing of a number and the ISO printing of a date.
\<close>

record mock_env =
  random :: "nat \<Rightarrow> real"
  now :: "nat \<Rightarrow> real"
  toString36 :: "real \<Rightarrow> string"
  toISOString :: "real \<Rightarrow> string"

text \<open>
  \<^verbatim>\<open>
  function generateMockTransactions(): Transaction[] {
    return Array.from({ length: 25 }, (_, i) => ({
      _id: `mock_${i}`,
      transaction_id: `txn_${Math.random().toString(36).substring(2, 18)}`,
      prediction: Math.random() > 0.85,
      confidence: Math.random(),
      timestamp: new Date(Date.now() - Math.random() * 86400000).toISOString(),
      input_features: { amount: Math.random() * 1000, time: Math.random() * 172792 }
    }))
  }
  \<close>
\<close>

definition mockTransaction :: "mock_env \<Rightarrow> nat \<Rightarrow> transaction" where
  "mockTransaction env i =
     \<lparr>id' = ''mock_'' @ string_of_nat i,
      transaction_id = Some (''txn_'' @ js_substring (toString36 env (random env (6 * i))) 2 18),
      prediction = (random env (6 * i + 1) > 0.85),
      confidence = random env (6 * i + 2),
      timestamp = Some (toISOString env (now env i - random env (6 * i + 3) * 86400000)),
      input_features =
        Some \<lparr>amount = Some (random env (6 * i + 4) * 1000),
              time = Some (random env (6 * i + 5) * 172792)\<rparr>\<rparr>"

definition generateMockTransactions :: "mock_env \<Rightarrow> transaction list" where
  "generateMockTransactions env = map (mockTransaction env) [0..<25]"

text \<open>
  \<^verbatim>\<open>
  const fetchTransactions = async () => {
    setLoading(true)
    try {
      const response = await fetch('http://localhost:8000/recent?limit=50')
      if (response.ok) {
        const data = await response.json()
        setTransactions(data.data || [])
      } else {
        setTransactions(generateMockTransactions())
      }
    } catch (error) {
      setTransactions(generateMockTransactions())
    } finally {
      setLoading(false)
    }
  }
  \<close>
  The body's \<open>data\<close> member may be absent (\<open>None\<close>). \<open>fetchTransactions_begin\<close> is
  the state while the request is in flight.
\<close>

definition fetchTransactions_begin :: "history_state \<Rightarrow> history_state" where
  "fetchTransactions_begin s = s\<lparr>loading := True\<rparr>"

definition fetchTransactions ::
  "mock_env \<Rightarrow> transaction list option fetch_result \<Rightarrow> history_state \<Rightarrow> history_state" where
  "fetchTransactions env r s =
     (let s1 = fetchTransactions_begin s;
          s2 =
            (case r of
               FetchRejected \<Rightarrow> s1\<lparr>transactions := generateMockTransactions env\<rparr>
             | FetchResponse status body \<Rightarrow>
                 if response_ok status then
                   (case body of
                      JsonError \<Rightarrow> s1\<lparr>transactions := generateMockTransactions env\<rparr>
                    | JsonValue d \<Rightarrow>
                        s1\<lparr>transactions := (case d of None \<Rightarrow> [] | Some txs \<Rightarrow> txs)\<rparr>)
                 else s1\<lparr>transactions := generateMockTransactions env\<rparr>)
      in s2\<lparr>loading := False\<rparr>)"

text \<open>The record shape of the \<open>Transaction\<close> interface with every optional member
  present.\<close>

definition full_shape :: "transaction \<Rightarrow> bool" where
  "full_shape tx =
     (case (transaction.transaction_id tx, transaction.timestamp tx, input_features tx) of
        (Some i, Some t, Some f) \<Rightarrow> (case (amount f, time f) of (Some a, Some b) \<Rightarrow> True | _ \<Rightarrow> False)
      | _ \<Rightarrow> False)"

text \<open>
  The handlers of the controls. The search box and the select call \<open>setSearchQuery\<close> and
  \<open>setFilter\<close>; the two page buttons call
  \<^verbatim>\<open>setCurrentPage(p => Math.max(1, p - 1))\<close> and
  \<^verbatim>\<open>setCurrentPage(p => Math.min(totalPages, p + 1))\<close>.
\<close>

definition setFilter :: "filter_kind \<Rightarrow> history_state \<Rightarrow> history_state" where
  "setFilter v s = s\<lparr>filter_sel := v\<rparr>"

definition setSearchQuery :: "string \<Rightarrow> history_state \<Rightarrow> history_state" where
  "setSearchQuery q s = s\<lparr>searchQuery := q\<rparr>"

definition previousPage :: "history_state \<Rightarrow> history_state" where
  "previousPage s = s\<lparr>currentPage := max 1 (currentPage s - 1)\<rparr>"

definition nextPage :: "history_state \<Rightarrow> history_state" where
  "nextPage s = s\<lparr>currentPage := min (totalPages s) (currentPage s + 1)\<rparr>"

text \<open>
  The page buttons exist only in the third branch of the content (not the loading
  placeholder, not the empty placeholder) and only when \<open>totalPages > 1\<close>; the previous
  button is disabled on page 1, the next button on the last page.
\<close>

definition pagination_rendered :: "history_state \<Rightarrow> bool" where
  "pagination_rendered s =
     (\<not> (loading s \<and> transactions s = []) \<and> paginatedTransactions s \<noteq> []
      \<and> totalPages s > 1)"

datatype history_event =
    SearchInput string
  | FilterSelect filter_kind
  | ClickPrevious
  | ClickNext
  | FetchStart
  | FetchDone mock_env "transaction list option fetch_result"

fun history_step :: "history_state \<Rightarrow> history_event \<Rightarrow> history_state" where
  "history_step s (SearchInput q) = setSearchQuery q s"
| "history_step s (FilterSelect v) = setFilter v s"
| "history_step s ClickPrevious =
     (if pagination_rendered s \<and> currentPage s \<noteq> 1 then previousPage s else s)"
| "history_step s ClickNext =
     (if pagination_rendered s \<and> currentPage s \<noteq> totalPages s then nextPage s else s)"
| "history_step s FetchStart = fetchTransactions_begin s"
| "history_step s (FetchDone env r) = fetchTransactions env r s"

definition history_run :: "history_event list \<Rightarrow> history_state" where
  "history_run es = foldl history_step initial_history_state es"

section \<open>Analytics dashboard (AnalyticsDashboard.tsx)\<close>

text \<open>
  \<^verbatim>\<open>
  const pieData = [
    { name: 'Safe', value: stats.safeCount || 85, color: COLORS.safe },
    { name: 'Fraud', value: stats.fraudCount || 15, color: COLORS.fraud },
  ]
  const statCards = [
    { title: 'Total Predictions', value: stats.totalPredictions || 1247, ... trend: '+12%' },
    { title: 'Fraud Detected', value: stats.fraudCount || 23, ... trend: '+5%' },
    { title: 'Safe Transactions', value: stats.safeCount || 1224, ... trend: '+15%' },
    { title: 'Fraud Rate', value: `${(stats.fraudPercentage || 1.8).toFixed(1)}%`, ... trend: '-2%' }
  ]
  \<close>
  A card's value is a number or a text; its icon, a component, is left out.
\<close>

datatype card_value = Num int | Text string

record pie_slice =
  slice_name :: string
  slice_value :: int
  slice_color :: string

record stat_card =
  title :: string
  card_value :: card_value
  color :: string
  trend :: string

definition pieData :: "stats \<Rightarrow> pie_slice list" where
  "pieData st =
     [\<lparr>slice_name = ''Safe'', slice_value = num_or (safeCount st) 85, slice_color = ''#10b981''\<rparr>,
      \<lparr>slice_name = ''Fraud'', slice_value = num_or (fraudCount st) 15, slice_color = ''#ef4444''\<rparr>]"

definition statCards :: "(real \<Rightarrow> string) \<Rightarrow> stats \<Rightarrow> stat_card list" where
  "statCards toString st =
     [\<lparr>title = ''Total Predictions'', card_value = Num (num_or (totalPredictions st) 1247),
       color = ''bg-blue-500'', trend = ''+12%''\<rparr>,
      \<lparr>title = ''Fraud Detected'', card_value = Num (num_or (fraudCount st) 23),
       color = ''bg-red-500'', trend = ''+5%''\<rparr>,
      \<lparr>title = ''Safe Transactions'', card_value = Num (num_or (safeCount st) 1224),
       color = ''bg-emerald-500'', trend = ''+15%''\<rparr>,
      \<lparr>title = ''Fraud Rate'',
       card_value = Text (toFixed1 toString (num_or (fraudPercentage st) 1.8) @ ''%''),
       color = ''bg-purple-500'', trend = ''-2%''\<rparr>]"

section \<open>Sample inputs\<close>

text \<open>The response of the specification's end-to-end scenario.\<close>

definition demo_result :: prediction_result where
  "demo_result =
     \<lparr>fraud = False, confidence = 0.97, message = ''ok'',
      transaction_id = Some ''abc123'', timestamp = None\<rparr>"

definition initial_card_state :: card_state where
  "initial_card_state = \<lparr>clipboard = [], copied = False\<rparr>"

definition zero_stats :: stats where
  "zero_stats = \<lparr>totalPredictions = 0, fraudCount = 0, safeCount = 0, fraudPercentage = 0\<rparr>"

section \<open>The specification's notion of a search match\<close>

text \<open>
  A transaction id contains the search string case-insensitively when some contiguous
  part of the id equals the search string up to the case of its letters.
\<close>

definition contains_ignoring_case :: "string \<Rightarrow> string \<Rightarrow> bool" where
  "contains_ignoring_case s q = (\<exists>t. sublist t s \<and> toLowerCase t = toLowerCase q)"

definition id_contains :: "string \<Rightarrow> transaction \<Rightarrow> bool" where
  "id_contains q tx =
     (\<exists>i. transaction.transaction_id tx = Some i \<and> contains_ignoring_case i q)"

text \<open>Sample history rows.\<close>

definition sample_tx :: "string \<Rightarrow> bool \<Rightarrow> transaction" where
  "sample_tx i p =
     \<lparr>id' = i, transaction_id = Some i, prediction = p, confidence = 0.9,
      timestamp = None, input_features = None\<rparr>"

definition sample_history :: "transaction list" where
  "sample_history =
     [sample_tx ''txn_ABC1'' True, sample_tx ''txn_xyz2'' False, sample_tx ''TXN_abc3'' False,
      sample_tx ''txn_9ab'' True]"

text \<open>
  An environment for the mock generator in which every draw is 1/2, and a history of 25
  safe rows as the backend might return it, browsed to its third page.
\<close>

definition demo_env :: mock_env where
  "demo_env =
     \<lparr>random = (\<lambda>i. 1 / 2), now = (\<lambda>i. 0), toString36 = (\<lambda>x. ''0.i''),
      toISOString = (\<lambda>x. ''1969-12-31T12:00:00.000Z'')\<rparr>"

definition safe_rows :: "transaction list" where
  "safe_rows = replicate 25 (sample_tx ''txn_safe'' False)"

definition page3_events :: "history_event list" where
  "page3_events =
     [FetchStart, FetchDone demo_env (FetchResponse 200 (JsonValue (Some safe_rows))),
      ClickNext, ClickNext]"

definition rows_at_page :: "int \<Rightarrow> history_state" where
  "rows_at_page p =
     \<lparr>transactions = safe_rows, loading = False, filter_sel = All, searchQuery = [],
      currentPage = p\<rparr>"

text \<open>
  A failed fetch in the sense of the specification: a transport error, or a response whose
  status is not a success status.
\<close>

fun fetch_failed :: "'a fetch_result \<Rightarrow> bool" where
  "fetch_failed FetchRejected = True"
| "fetch_failed (FetchResponse status body) = (\<not> response_ok status)"

text \<open>
  A history of 50 rows as the backend might return it, browsed to its fifth page, and a
  poll that is then rejected.
\<close>

definition live_rows :: "transaction list" where
  "live_rows = replicate 50 (sample_tx ''txn_live'' False)"

definition live_at_page :: "int \<Rightarrow> history_state" where
  "live_at_page p =
     \<lparr>transactions = live_rows, loading = False, filter_sel = All, searchQuery = [],
      currentPage = p\<rparr>"

definition page5_events :: "history_event list" where
  "page5_events =
     [FetchStart, FetchDone demo_env (FetchResponse 200 (JsonValue (Some live_rows))),
      ClickNext, ClickNext, ClickNext, ClickNext]"

definition failed_poll :: "history_event list" where
  "failed_poll = [FetchStart, FetchDone demo_env FetchRejected]"

section \<open>Properties\<close>

subsection \<open>Confidence colouring\<close>

lemma severity_gradient_inj: "inj severity_gradient"
proof (rule injI)
  fix a b :: severity
  assume "severity_gradient a = severity_gradient b"
  then show "a = b" by (cases a; cases b) simp_all
qed

text \<open>
  Claim C1. The colour of the result card is a function of the pair (fraud, confidence)
  alone: it is the gradient of the tier that the specification selects, high above 0.8,
  medium above 0.5 and low otherwise for a fraud, very safe below 0.2, safe below 0.5 and
  borderline-safe otherwise for a safe transaction. Distinct tiers have distinct gradients,
  and every comparison is strict: at exactly 0.8 a fraud is medium, at exactly 0.5 it is
  low; at exactly 0.2 a safe transaction is safe, at exactly 0.5 it is borderline-safe.
\<close>

theorem C1_severity_mapping:
  "ResultCard_getConfidenceColor c isFraud
     = severity_gradient (spec_severity isFraud c)
   \<and> inj severity_gradient
   \<and> ResultCard_getConfidenceColor 0.8 True = severity_gradient Medium
   \<and> ResultCard_getConfidenceColor 0.5 True = severity_gradient Low
   \<and> ResultCard_getConfidenceColor 0.2 False = severity_gradient Safe
   \<and> ResultCard_getConfidenceColor 0.5 False = severity_gradient BorderlineSafe"
  by (simp add: ResultCard_getConfidenceColor_def spec_severity_def severity_gradient_inj)

text \<open>
  Claim C9. In the history table a safe row always gets the one emerald colour, whatever
  its confidence; a fraud row is red above 0.8, orange above 0.5 and yellow otherwise.
  The result card, in contrast, draws safe transactions of confidence 0.1, 0.3 and 0.7
  in three different gradients.
\<close>

theorem C9_history_safe_colour_constant:
  "TransactionHistory_getConfidenceColor c False
     = ''text-emerald-600 dark:text-emerald-400''
   \<and> TransactionHistory_getConfidenceColor c True
     = (if c > 0.8 then ''text-red-600 dark:text-red-400''
        else if c > 0.5 then ''text-orange-600 dark:text-orange-400''
        else ''text-yellow-600 dark:text-yellow-400'')
   \<and> TransactionHistory_getConfidenceColor 0.1 False
     = TransactionHistory_getConfidenceColor 0.7 False
   \<and> ResultCard_getConfidenceColor 0.1 False \<noteq> ResultCard_getConfidenceColor 0.3 False
   \<and> ResultCard_getConfidenceColor 0.3 False \<noteq> ResultCard_getConfidenceColor 0.7 False
   \<and> ResultCard_getConfidenceColor 0.1 False \<noteq> ResultCard_getConfidenceColor 0.7 False"
  by (simp add: TransactionHistory_getConfidenceColor_def ResultCard_getConfidenceColor_def)

subsection \<open>The prediction exchange\<close>




subsection \<open>The transaction id row\<close>

lemma js_slice_prefix: "0 \<le> n \<Longrightarrow> js_slice xs 0 n = take (nat n) xs"
  by (simp add: js_slice_def Let_def min_def)

text \<open>
  The statement of claim C6, that an id of at most 16 characters is shown with no
  ellipsis, fails on the id of the specification's own scenario: \<open>abc123\<close> is shown as
  \<open>abc123...\<close>.
\<close>

theorem C6_short_id_counterexample:
  "length ''abc123'' \<le> 16
   \<and> transaction_id_text demo_result = Some ''abc123...''
   \<and> transaction_id_text demo_result \<noteq> Some ''abc123''"
  by (simp add: transaction_id_text_def demo_result_def js_slice_prefix)

text \<open>
  Claim C6, amended. A present, non-empty transaction id is shown as its first 16
  characters followed by three dots, whatever its length; an id of at most 16 characters
  is therefore shown whole, followed by the dots. The copy action puts the whole id on the
  clipboard and sets the copied flag.
\<close>

theorem C6_id_text_and_copy:
  assumes "prediction_result.transaction_id p = Some i" and "i \<noteq> []"
  shows "transaction_id_text p = Some (take 16 i @ ''...'')
       \<and> (length i \<le> 16 \<longrightarrow> transaction_id_text p = Some (i @ ''...''))
       \<and> clipboard (copyTransactionId (Some p) s) = i
       \<and> copied (copyTransactionId (Some p) s)"
  using assms by (simp add: transaction_id_text_def copyTransactionId_def js_slice_prefix)

theorem C6_id_text_and_copy_witness:
  "transaction_id_text
     (demo_result\<lparr>prediction_result.transaction_id := Some ''0123456789abcdefghij''\<rparr>)
     = Some ''0123456789abcdef...''
   \<and> clipboard (copyTransactionId
        (Some (demo_result\<lparr>prediction_result.transaction_id := Some ''0123456789abcdefghij''\<rparr>))
        initial_card_state) = ''0123456789abcdefghij''
   \<and> transaction_id_text demo_result = Some ''abc123...''
   \<and> clipboard (copyTransactionId (Some demo_result) initial_card_state) = ''abc123''"
  using C6_id_text_and_copy
     [of "demo_result\<lparr>prediction_result.transaction_id := Some ''0123456789abcdefghij''\<rparr>"
         "''0123456789abcdefghij''" initial_card_state]
    C6_id_text_and_copy [of demo_result "''abc123''" initial_card_state]
  by (simp add: demo_result_def)

subsection \<open>The analytics dashboard\<close>

lemma toFixed1_default: "toFixed1 toString 1.8 = ''1.8''"
  by (simp add: toFixed1_def Let_def string_of_nat.simps digit_char_def)

text \<open>
  Claim C10. Each card shows its statistic unless that statistic is 0, in which case it
  shows the built-in number: 1247 predictions, 23 frauds, 1224 safe transactions and a
  rate of 1.8 (printed \<open>1.8%\<close>); the pie chart uses 85 and 15 in place of a zero safe or
  fraud count. The all-zero statistics are thus displayed as 1247, 23, 1224, \<open>1.8%\<close> and
  85, 15, and no card or pie slice ever shows the number 0.
\<close>

theorem C10_zero_stats_show_mock_numbers:
  "map card_value (statCards toString st)
     = [Num (if totalPredictions st = 0 then 1247 else totalPredictions st),
        Num (if fraudCount st = 0 then 23 else fraudCount st),
        Num (if safeCount st = 0 then 1224 else safeCount st),
        Text (toFixed1 toString (if fraudPercentage st = 0 then 1.8 else fraudPercentage st)
              @ ''%'')]
   \<and> map slice_value (pieData st)
     = [if safeCount st = 0 then 85 else safeCount st,
        if fraudCount st = 0 then 15 else fraudCount st]
   \<and> map card_value (statCards toString zero_stats)
     = [Num 1247, Num 23, Num 1224, Text ''1.8%'']
   \<and> map slice_value (pieData zero_stats) = [85, 15]
   \<and> Num 0 \<notin> set (map card_value (statCards toString st))
   \<and> 0 \<notin> set (map slice_value (pieData st))"
  using toFixed1_default [of toString]
  by (simp add: statCards_def pieData_def num_or_def zero_stats_def)

subsection \<open>The form's completion percentage\<close>

lemma map_fst_obj_set:
  "k \<in> set (map fst kvs) \<Longrightarrow> map fst (obj_set kvs k v) = map fst kvs"
  by (induction kvs) force+

lemma keys_randomData: "map fst (randomData rnd) = map fst defaultValues"
  by (simp add: randomData_def defaultValues_def)

lemma length_defaultValues: "length (map fst defaultValues) = 30"
  by (simp add: defaultValues_def)

lemma keys_form_step:
  "rendered_input e \<Longrightarrow> map fst (formData s) = map fst defaultValues
     \<Longrightarrow> map fst (formData (form_step s e)) = map fst defaultValues"
  by (cases e)
     (simp_all add: handleChange_def Let_def handleReset_def fillRandomData_def
        keys_randomData map_fst_obj_set)

lemma keys_form_run:
  "\<forall>e \<in> set es. rendered_input e \<Longrightarrow> map fst (formData (form_run es)) = map fst defaultValues"
proof (induction es rule: rev_induct)
  case Nil
  then show ?case by (simp add: form_run_def initial_form_state_def)
next
  case (snoc e es)
  then show ?case using keys_form_step [of e "form_run es"] by (simp add: form_run_def)
qed

lemma count_values: 
  "length (filter (\<lambda>x. x \<noteq> 0) (Object_values d)) = length (filter (\<lambda>kv. snd kv \<noteq> 0) d)"
  by (induction d) (simp_all add: Object_values_def)

lemma handleChange_progress:
  "fillProgress (handleChange field v s) = spec_completion (formData (handleChange field v s))"
  by (simp add: handleChange_def Let_def spec_completion_def count_values)

lemma spec_completion_bounds:
  assumes "length d = 30"
  shows "0 \<le> spec_completion d \<and> spec_completion d \<le> 100"
proof -
  have "length (filter (\<lambda>kv. snd kv \<noteq> 0) d) \<le> 30"
    using length_filter_le [of "\<lambda>kv. snd kv \<noteq> 0" d] assms by simp
  then have "real (length (filter (\<lambda>kv. snd kv \<noteq> 0) d)) \<le> 30" by simp
  then show ?thesis by (simp add: spec_completion_def)
qed

lemma progress_bounds_step:
  assumes "rendered_input e" and "map fst (formData s) = map fst defaultValues"
  shows "0 \<le> fillProgress (form_step s e) \<and> fillProgress (form_step s e) \<le> 100"
proof (cases e)
  case (Change field v)
  have "map fst (formData (form_step s e)) = map fst defaultValues"
    using assms by (rule keys_form_step)
  then have "length (map fst (formData (handleChange field v s))) = 30"
    using Change length_defaultValues by simp
  then have "length (formData (handleChange field v s)) = 30" by simp
  then show ?thesis
    using Change spec_completion_bounds [of "formData (handleChange field v s)"]
    by (simp add: handleChange_progress)
next
  case Reset
  then show ?thesis by (simp add: handleReset_def)
next
  case (Random rnd)
  then show ?thesis by (simp add: fillRandomData_def)
qed

lemma form_run_snoc: "form_run (es @ [e]) = form_step (form_run es) e"
  by (simp add: form_run_def)

lemma progress_bounds_run:
  assumes "\<forall>e \<in> set es. rendered_input e"
  shows "0 \<le> fillProgress (form_run es) \<and> fillProgress (form_run es) \<le> 100"
proof (cases es rule: rev_cases)
  case Nil
  then show ?thesis by (simp add: form_run_def initial_form_state_def)
next
  case (snoc es' e)
  then have "\<forall>e \<in> set es'. rendered_input e" and "rendered_input e" using assms by auto
  then show ?thesis
    using snoc progress_bounds_step [of e "form_run es'"] keys_form_run [of es']
    by (simp add: form_run_snoc)
qed

text \<open>
  What holds of the percentage on every path: after any sequence of events of the form
  (edits of the rendered inputs, Reset, Random) it lies between 0 and 100, and right after
  an edit it is the percentage that \<open>handleChange\<close> computes, 100 times the number of
  fields that are not 0, over 30.
\<close>

lemma completion_after_edits:
  assumes "\<forall>e \<in> set es. rendered_input e"
  shows "0 \<le> fillProgress (form_run es) \<and> fillProgress (form_run es) \<le> 100
       \<and> fillProgress (form_run (es @ [Change field v]))
           = spec_completion (formData (form_run (es @ [Change field v])))"
  using progress_bounds_run [OF assms] by (simp add: form_run_snoc handleChange_progress)

text \<open>
  Claim C3. The claim requires the percentage to be 100 times the number of non-zero
  fields over 30 in every state, the initial one, the one after Reset and the one after
  Random included. The code computes that value in \<open>handleChange\<close> only. On mount and
  after Reset it stores 0, although the default amount is 100 and the formula gives 10/3;
  the same draft reached by two edits (\<open>v1\<close> set to 1 and back to 0) shows 10/3. After
  Random it stores 100 whatever was drawn: with every draw equal to 1/2 the 28 \<open>v\<close>
  fields are 0 and the formula gives 20/3.
\<close>

theorem C3_completion_not_recomputed:
  "fillProgress (form_run []) = 0
   \<and> spec_completion (formData (form_run [])) = 10 / 3
   \<and> fillProgress (form_run []) \<noteq> spec_completion (formData (form_run []))
   \<and> formData (form_run [Change ''v1'' 1, Change ''v1'' 0]) = formData (form_run [])
   \<and> fillProgress (form_run [Change ''v1'' 1, Change ''v1'' 0]) = 10 / 3
   \<and> fillProgress (form_run [Change ''v1'' 1, Reset]) = 0
   \<and> spec_completion (formData (form_run [Change ''v1'' 1, Reset])) = 10 / 3
   \<and> fillProgress (form_run [Random (\<lambda>i. 1 / 2)]) = 100
   \<and> spec_completion (formData (form_run [Random (\<lambda>i. 1 / 2)])) = 20 / 3"
  by (simp add: form_run_def initial_form_state_def spec_completion_def defaultValues_def
        handleChange_def handleReset_def fillRandomData_def randomData_def Let_def
        Object_values_def)

subsection \<open>Filtering the history\<close>

lemma js_includes_sublist: "js_includes s q \<longleftrightarrow> sublist q s"
  by (induction s) (simp_all add: sublist_Cons_right)

lemma includes_lower_iff:
  "js_includes (toLowerCase i) (toLowerCase q) \<longleftrightarrow> contains_ignoring_case i q"
proof
  assume "js_includes (toLowerCase i) (toLowerCase q)"
  then have "sublist (toLowerCase q) (map toLowerChar i)"
    by (simp add: js_includes_sublist toLowerCase_def)
  then obtain t where "sublist t i" and "toLowerCase q = map toLowerChar t"
    using sublist_map_rightE by blast
  then show "contains_ignoring_case i q"
    by (auto simp add: contains_ignoring_case_def toLowerCase_def)
next
  assume "contains_ignoring_case i q"
  then obtain t where t: "sublist t i" "toLowerCase t = toLowerCase q"
    by (auto simp add: contains_ignoring_case_def)
  from t(1) have "sublist (map toLowerChar t) (map toLowerChar i)"
    by (rule map_mono_sublist)
  with t(2) show "js_includes (toLowerCase i) (toLowerCase q)"
    by (simp add: js_includes_sublist toLowerCase_def)
qed

lemma matchesSearch_nonempty:
  "q \<noteq> [] \<Longrightarrow> matchesSearch q tx \<longleftrightarrow> id_contains q tx"
  by (simp add: matchesSearch_def id_contains_def includes_lower_iff split: option.splits)

lemma filterTransactions_search:
  "filterTransactions f q txs = filter (matchesSearch q) (filterTransactions f [] txs)"
  by (induction txs) (simp_all add: filterTransactions_def matchesSearch_def)

text \<open>
  Claim C4. With an empty search, the fraud filter returns exactly the rows whose
  prediction is true, the safe filter exactly those whose prediction is false, and the
  filter \<open>all\<close> returns the list unchanged, order included. With a non-empty search
  the result is the result of the same filter with an empty search, restricted to the rows
  whose transaction id contains the search string case-insensitively: as lists, in the
  original order, and as sets, the intersection.
\<close>

theorem C4_filter_and_search:
  "filterTransactions Fraud [] txs = filter transaction.prediction txs
   \<and> filterTransactions SafeOnly [] txs = filter (\<lambda>tx. \<not> transaction.prediction tx) txs
   \<and> filterTransactions All [] txs = txs
   \<and> (q \<noteq> [] \<longrightarrow>
        filterTransactions f q txs = filter (id_contains q) (filterTransactions f [] txs)
        \<and> set (filterTransactions f q txs)
            = set (filterTransactions f [] txs) \<inter> {tx \<in> set txs. id_contains q tx})"
proof -
  have a: "filterTransactions Fraud [] txs = filter transaction.prediction txs"
    by (simp add: filterTransactions_def matchesFilter_def matchesSearch_def)
  have b: "filterTransactions SafeOnly [] txs = filter (\<lambda>tx. \<not> transaction.prediction tx) txs"
    by (simp add: filterTransactions_def matchesFilter_def matchesSearch_def)
  have c: "filterTransactions All [] txs = txs"
    by (simp add: filterTransactions_def matchesFilter_def matchesSearch_def)
  have d: "filterTransactions f q txs = filter (id_contains q) (filterTransactions f [] txs)"
    if "q \<noteq> []"
  proof -
    have "matchesSearch q = id_contains q"
      using that by (auto simp add: matchesSearch_nonempty)
    then show ?thesis using filterTransactions_search [of f q txs] by simp
  qed
  have e: "set (filterTransactions f q txs)
            = set (filterTransactions f [] txs) \<inter> {tx \<in> set txs. id_contains q tx}"
    if "q \<noteq> []"
    using d [OF that] by (auto simp add: filterTransactions_def)
  from a b c d e show ?thesis by blast
qed

theorem C4_filter_and_search_witness:
  "''Abc'' \<noteq> []
   \<and> filterTransactions Fraud ''Abc'' sample_history
       = filter (id_contains ''Abc'') (filterTransactions Fraud [] sample_history)
   \<and> filterTransactions Fraud ''Abc'' sample_history = [sample_tx ''txn_ABC1'' True]
   \<and> filterTransactions SafeOnly ''Abc'' sample_history = [sample_tx ''TXN_abc3'' False]
   \<and> filterTransactions All ''Abc'' sample_history
       = [sample_tx ''txn_ABC1'' True, sample_tx ''TXN_abc3'' False]
   \<and> filterTransactions Fraud [] sample_history
       = [sample_tx ''txn_ABC1'' True, sample_tx ''txn_9ab'' True]"
  using C4_filter_and_search [of sample_history "''Abc''" Fraud]
  by (simp add: filterTransactions_def matchesFilter_def matchesSearch_def sample_history_def
        sample_tx_def toLowerCase_def toLowerChar_def)

subsection \<open>Pagination\<close>

lemma pageCount_div: "pageCount xs = (int (length xs) + 9) div 10"
proof -
  have "pageCount xs = \<lceil>real_of_int (int (length xs)) / real_of_int 10\<rceil>"
    by (simp add: pageCount_def itemsPerPage_def)
  also have "\<dots> = - (- int (length xs) div 10)"
    by (rule ceiling_divide_eq_div)
  also have "\<dots> = (int (length xs) + 9) div 10"
    by presburger
  finally show ?thesis .
qed

lemma nat_min_int: "nat (min (int a) (int b)) = min a b"
  by (simp add: min_def)

lemma nat_min_diff_int:
  "nat (min (int c) (int n) - min (int a) (int n)) = min c n - min a n"
  by (simp add: min_def) linarith

lemma pageOf_take_drop:
  assumes "1 \<le> p"
  shows "pageOf xs p = take 10 (drop (10 * nat (p - 1)) xs)"
proof -
  define k where "k = nat (p - 1)"
  have p: "p = int k + 1" using assms by (simp add: k_def)
  let ?n = "length xs"
  have eq: "pageOf xs p
              = take (nat (min (int (10 * k + 10)) (int ?n) - min (int (10 * k)) (int ?n)))
                  (drop (nat (min (int (10 * k)) (int ?n))) xs)"
    by (simp add: pageOf_def js_slice_def Let_def itemsPerPage_def p algebra_simps)
  have lo: "nat (min (int (10 * k)) (int ?n)) = min (10 * k) ?n"
    by (rule nat_min_int)
  have len: "nat (min (int (10 * k + 10)) (int ?n) - min (int (10 * k)) (int ?n))
               = min (10 * k + 10) ?n - min (10 * k) ?n"
    by (rule nat_min_diff_int)
  have "pageOf xs p = take (min (10 * k + 10) ?n - min (10 * k) ?n) (drop (min (10 * k) ?n) xs)"
    using eq lo len by simp
  also have "\<dots> = take 10 (drop (10 * k) xs)"
  proof (cases "10 * k < ?n")
    case True
    then have "min (10 * k + 10) ?n - min (10 * k) ?n = min 10 (?n - 10 * k)"
      by linarith
    then show ?thesis using True by (simp add: min_def)
  next
    case False
    then show ?thesis by simp
  qed
  finally show ?thesis by (simp add: k_def)
qed

lemma length_pageOf:
  "1 \<le> p \<Longrightarrow> length (pageOf xs p) = min 10 (length xs - 10 * nat (p - 1))"
  by (simp add: pageOf_take_drop)

lemma full_pages:
  assumes "1 \<le> p" and "p < pageCount xs"
  shows "length (pageOf xs p) = 10"
proof -
  have "p < (int (length xs) + 9) div 10" using assms(2) by (simp add: pageCount_div)
  then have "10 * p < int (length xs) + 9 - 9 + 1" by linarith
  then have "10 * nat (p - 1) + 10 \<le> length xs" using assms(1) by linarith
  then show ?thesis using assms(1) by (simp add: length_pageOf)
qed

lemma last_page:
  assumes "xs \<noteq> []"
  shows "length (pageOf xs (pageCount xs))
           = (if length xs mod 10 = 0 then 10 else length xs mod 10)"
proof -
  define q where "q = (length xs - 1) div 10"
  define r where "r = (length xs - 1) mod 10"
  have M: "length xs = 10 * q + r + 1" and r: "r < 10"
    using assms by (simp_all add: q_def r_def)
  have "(length xs + 9) div 10 = q + 1"
    using r by (simp add: M)
  then have pc: "pageCount xs = int q + 1"
    by (simp add: pageCount_div zdiv_int [symmetric] del: of_nat_add)
  then have "length (pageOf xs (pageCount xs)) = min 10 (length xs - 10 * q)"
    by (simp add: length_pageOf)
  also have "\<dots> = r + 1" using r by (simp add: M)
  also have "\<dots> = (if length xs mod 10 = 0 then 10 else length xs mod 10)"
  proof (cases "r = 9")
    case True
    then show ?thesis by (simp add: M)
  next
    case False
    then have "r + 1 < 10" using r by simp
    then have "(10 * q + (r + 1)) mod 10 = r + 1" by simp
    then show ?thesis by (simp add: M add.assoc)
  qed
  finally show ?thesis .
qed

lemma nonempty_pages:
  assumes "1 \<le> p"
  shows "pageOf xs p \<noteq> [] \<longleftrightarrow> p \<le> pageCount xs"
proof -
  have "pageOf xs p \<noteq> [] \<longleftrightarrow> 0 < length (pageOf xs p)" by simp
  also have "\<dots> \<longleftrightarrow> 10 * nat (p - 1) < length xs"
    using assms by (simp add: length_pageOf)
  also have "\<dots> \<longleftrightarrow> p \<le> (int (length xs) + 9) div 10"
    using assms by linarith
  finally show ?thesis by (simp add: pageCount_div)
qed

lemma page_items:
  assumes "1 \<le> p" and "i < length (pageOf xs p)"
  shows "pageOf xs p ! i = xs ! (10 * nat (p - 1) + i)"
proof -
  have "i < min 10 (length xs - 10 * nat (p - 1))"
    using assms by (simp add: length_pageOf)
  then have "i < 10" and "10 * nat (p - 1) \<le> length xs"
    by linarith+
  then show ?thesis using assms(1) by (simp add: pageOf_take_drop)
qed

text \<open>
  Claim C5. A list of \<open>M\<close> rows has \<open>ceil(M / 10)\<close> pages. Every page \<open>p\<close> from 1
  up to but excluding the last has 10 rows; the last page of a non-empty list has
  \<open>M mod 10\<close> rows, or 10 when 10 divides \<open>M\<close>. Page \<open>p\<close> is the part of the list from
  index \<open>10 (p - 1)\<close> up to \<open>10 p\<close>, and the non-empty pages are exactly the pages 1 to
  \<open>ceil(M / 10)\<close>.
\<close>

theorem C5_pagination:
  "pageCount xs = \<lceil>real (length xs) / 10\<rceil>
   \<and> (1 \<le> p \<and> p < pageCount xs \<longrightarrow> length (pageOf xs p) = 10)
   \<and> (xs \<noteq> [] \<longrightarrow>
        length (pageOf xs (pageCount xs))
          = (if length xs mod 10 = 0 then 10 else length xs mod 10))
   \<and> (1 \<le> p \<longrightarrow>
        pageOf xs p = take 10 (drop (10 * nat (p - 1)) xs)
        \<and> (pageOf xs p \<noteq> [] \<longleftrightarrow> p \<le> pageCount xs)
        \<and> (\<forall>i < length (pageOf xs p). pageOf xs p ! i = xs ! (10 * nat (p - 1) + i)))"
  using full_pages [of p xs] last_page [of xs] pageOf_take_drop [of p xs]
    nonempty_pages [of p xs] page_items [of p _ xs]
  by (simp add: pageCount_def itemsPerPage_def)

theorem C5_pagination_witness:
  "pageCount [1 ..< 24 :: nat] = 3
   \<and> (1::int) \<le> 2 \<and> 2 < pageCount [1 ..< 24 :: nat]
   \<and> length (pageOf [1 ..< 24 :: nat] 2) = 10
   \<and> [1 ..< 24 :: nat] \<noteq> []
   \<and> length (pageOf [1 ..< 24 :: nat] 3) = 3
   \<and> pageOf [1 ..< 24 :: nat] 2 = [11 ..< 21]
   \<and> pageOf [1 ..< 24 :: nat] 3 = [21, 22, 23]"
  using C5_pagination [of "[1 ..< 24 :: nat]" 2] C5_pagination [of "[1 ..< 24 :: nat]" 3]
  by (simp add: pageCount_div)

subsection \<open>The mock history\<close>

lemma fetch_failed_mock:
  "transactions (fetchTransactions env FetchRejected s) = generateMockTransactions env"
  "transactions (fetchTransactions env (FetchResponse status JsonError) s)
     = generateMockTransactions env"
  "\<not> response_ok status \<Longrightarrow>
     transactions (fetchTransactions env (FetchResponse status body) s)
       = generateMockTransactions env"
  by (simp_all add: fetchTransactions_def fetchTransactions_begin_def Let_def)

lemma fetch_frame:
  "\<not> loading (fetchTransactions env r s)"
  "currentPage (fetchTransactions env r s) = currentPage s"
  "filter_sel (fetchTransactions env r s) = filter_sel s"
  "searchQuery (fetchTransactions env r s) = searchQuery s"
  by (simp_all add: fetchTransactions_def fetchTransactions_begin_def Let_def
        split: fetch_result.splits json_result.splits)

lemma full_shape_mock: "full_shape (mockTransaction env i)"
  by (simp add: full_shape_def mockTransaction_def)

subsection \<open>The page index\<close>

lemma history_run_snoc: "history_run (es @ [e]) = history_step (history_run es) e"
  by (simp add: history_run_def)

lemma totalPages_frame:
  "totalPages (previousPage s) = totalPages s"
  "totalPages (nextPage s) = totalPages s"
  by (simp_all add: totalPages_def filteredTransactions_def previousPage_def nextPage_def)

lemma totalPages_click:
  "totalPages (history_step s ClickPrevious) = totalPages s"
  "totalPages (history_step s ClickNext) = totalPages s"
  by (simp_all add: totalPages_frame)

lemma rendered_page_in_range:
  assumes "pagination_rendered s" and "1 \<le> currentPage s"
  shows "currentPage s \<le> totalPages s" and "1 < totalPages s"
proof -
  have "pageOf (filteredTransactions s) (currentPage s) \<noteq> []"
    using assms(1) by (simp add: pagination_rendered_def paginatedTransactions_def)
  then show "currentPage s \<le> totalPages s"
    using nonempty_pages [OF assms(2), of "filteredTransactions s"]
    by (simp add: totalPages_def)
  show "1 < totalPages s" using assms(1) by (simp add: pagination_rendered_def)
qed

lemma page_buttons_in_range:
  assumes "pagination_rendered s" and "1 \<le> currentPage s"
  shows "1 \<le> currentPage (previousPage s) \<and> currentPage (previousPage s) \<le> totalPages s
       \<and> 1 \<le> currentPage (nextPage s) \<and> currentPage (nextPage s) \<le> totalPages s"
  using rendered_page_in_range [OF assms] assms(2)
  by (simp add: previousPage_def nextPage_def)

lemma history_step_page_ge1:
  assumes "1 \<le> currentPage s"
  shows "1 \<le> currentPage (history_step s e)"
proof (cases e)
  case ClickNext
  then show ?thesis
    using assms page_buttons_in_range [of s] by simp
next
  case ClickPrevious
  then show ?thesis using assms by (simp add: previousPage_def)
qed (simp_all add: assms setSearchQuery_def setFilter_def fetch_frame
      fetchTransactions_begin_def)

lemma history_run_page_ge1: "1 \<le> currentPage (history_run es)"
proof (induction es rule: rev_induct)
  case Nil
  then show ?case by (simp add: history_run_def initial_history_state_def)
next
  case (snoc e es)
  then show ?case by (simp add: history_run_snoc history_step_page_ge1)
qed

lemma only_buttons_change_page:
  "currentPage (history_step s e) \<noteq> currentPage s \<Longrightarrow> e = ClickPrevious \<or> e = ClickNext"
  by (cases e)
     (simp_all add: setSearchQuery_def setFilter_def fetch_frame fetchTransactions_begin_def)

lemma filter_all_rows: "filterTransactions All [] txs = txs"
  by (simp add: filterTransactions_def matchesFilter_def matchesSearch_def)

lemma length_safe_rows: "length safe_rows = 25"
  by (simp add: safe_rows_def)

lemma totalPages_rows: "totalPages (rows_at_page p) = 3"
  by (simp add: rows_at_page_def totalPages_def filteredTransactions_def filter_all_rows
        pageCount_div length_safe_rows)

lemma rendered_rows:
  assumes "1 \<le> p" and "p \<le> 3"
  shows "pagination_rendered (rows_at_page p)"
proof -
  have "pageOf safe_rows p \<noteq> []"
    using assms nonempty_pages [OF assms(1), of safe_rows]
    by (simp add: pageCount_div length_safe_rows)
  then have "paginatedTransactions (rows_at_page p) \<noteq> []"
    by (simp add: rows_at_page_def paginatedTransactions_def filteredTransactions_def
          filter_all_rows)
  then show ?thesis
    using totalPages_rows [of p] by (simp add: pagination_rendered_def) (simp add: rows_at_page_def)
qed

lemma next_rows:
  assumes "1 \<le> p" and "p < 3"
  shows "history_step (rows_at_page p) ClickNext = rows_at_page (p + 1)"
proof -
  have "pagination_rendered (rows_at_page p)" using assms by (simp add: rendered_rows)
  moreover have "currentPage (rows_at_page p) \<noteq> totalPages (rows_at_page p)"
    using assms by (simp add: totalPages_rows) (simp add: rows_at_page_def)
  ultimately have "history_step (rows_at_page p) ClickNext = nextPage (rows_at_page p)"
    by simp
  also have "\<dots> = rows_at_page (p + 1)"
    using assms by (simp add: nextPage_def totalPages_rows) (simp add: rows_at_page_def)
  finally show ?thesis .
qed

lemma page3_state: "history_run page3_events = rows_at_page 3"
proof -
  have "history_run
          [FetchStart, FetchDone demo_env (FetchResponse 200 (JsonValue (Some safe_rows)))]
          = rows_at_page 1"
    by (simp add: history_run_def initial_history_state_def fetchTransactions_def
          fetchTransactions_begin_def response_ok_def rows_at_page_def)
  then have "history_run page3_events
               = history_step (history_step (rows_at_page 1) ClickNext) ClickNext"
    by (simp add: history_run_def page3_events_def del: history_step.simps)
  also have "\<dots> = rows_at_page 3"
    using next_rows [of 1] next_rows [of 2] by simp
  finally show ?thesis .
qed

lemma page3_fraud_filter:
  "currentPage (history_run (page3_events @ [FilterSelect Fraud])) = 3"
  "totalPages (history_run (page3_events @ [FilterSelect Fraud])) = 0"
  "totalPages (history_run page3_events) = 3"
  by (simp_all add: history_run_snoc page3_state setFilter_def totalPages_def rows_at_page_def
        filteredTransactions_def filterTransactions_def matchesFilter_def matchesSearch_def
        safe_rows_def sample_tx_def pageCount_div)

text \<open>
  Claim C8. Selecting a filter or typing in the search box leaves the page index as it
  is, and of all events only the two page buttons can change it. The index can therefore
  exceed the page count: on the third page of 25 safe rows, selecting the fraud filter
  leaves page 3 of 0 pages. The previous button never goes below 1 and the next button
  never above the page count; the index is at least 1 in every reachable state, and
  whenever the buttons are on screen a click leaves it between 1 and the page count.
\<close>

theorem C8_filter_change_keeps_page:
  "currentPage (setFilter v s) = currentPage s
   \<and> currentPage (setSearchQuery q s) = currentPage s
   \<and> (currentPage (history_step s e) \<noteq> currentPage s \<longrightarrow> e = ClickPrevious \<or> e = ClickNext)
   \<and> totalPages (history_run (page3_events @ [FilterSelect Fraud]))
       < currentPage (history_run (page3_events @ [FilterSelect Fraud]))
   \<and> 1 \<le> currentPage (history_run es)
   \<and> 1 \<le> currentPage (previousPage s)
   \<and> currentPage (nextPage s) \<le> totalPages s
   \<and> (pagination_rendered (history_run es) \<longrightarrow>
        1 \<le> currentPage (history_step (history_run es) ClickPrevious)
        \<and> currentPage (history_step (history_run es) ClickPrevious)
            \<le> totalPages (history_step (history_run es) ClickPrevious)
        \<and> 1 \<le> currentPage (history_step (history_run es) ClickNext)
        \<and> currentPage (history_step (history_run es) ClickNext)
            \<le> totalPages (history_step (history_run es) ClickNext))"
proof -
  have a: "currentPage (setFilter v s) = currentPage s"
    and b: "currentPage (setSearchQuery q s) = currentPage s"
    by (simp_all add: setFilter_def setSearchQuery_def)
  have c: "currentPage (history_step s e) \<noteq> currentPage s \<longrightarrow> e = ClickPrevious \<or> e = ClickNext"
    using only_buttons_change_page by blast
  have d: "totalPages (history_run (page3_events @ [FilterSelect Fraud]))
             < currentPage (history_run (page3_events @ [FilterSelect Fraud]))"
    by (simp add: page3_fraud_filter)
  have e: "1 \<le> currentPage (history_run es)" by (rule history_run_page_ge1)
  have f: "1 \<le> currentPage (previousPage s)" and g: "currentPage (nextPage s) \<le> totalPages s"
    by (simp_all add: previousPage_def nextPage_def)
  have h: "1 \<le> currentPage (history_step (history_run es) ClickPrevious)
        \<and> currentPage (history_step (history_run es) ClickPrevious)
            \<le> totalPages (history_step (history_run es) ClickPrevious)
        \<and> 1 \<le> currentPage (history_step (history_run es) ClickNext)
        \<and> currentPage (history_step (history_run es) ClickNext)
            \<le> totalPages (history_step (history_run es) ClickNext)"
    if "pagination_rendered (history_run es)"
    unfolding totalPages_click
    using page_buttons_in_range [OF that e] rendered_page_in_range [OF that e] e by simp
  from a b c d e f g h show ?thesis by blast
qed

theorem C8_filter_change_keeps_page_witness:
  "currentPage (history_run page3_events) = 3
   \<and> totalPages (history_run page3_events) = 3
   \<and> pagination_rendered (history_run page3_events)
   \<and> currentPage (history_step (history_run page3_events) ClickPrevious) = 2
   \<and> currentPage (history_step (history_run page3_events) ClickNext) = 3
   \<and> currentPage (history_step (history_run page3_events) (FilterSelect Fraud)) = 3
   \<and> totalPages (history_step (history_run page3_events) (FilterSelect Fraud)) = 0
   \<and> currentPage (history_step (history_run page3_events) (SearchInput ''zzz'')) = 3
   \<and> totalPages (history_step (history_run page3_events) (SearchInput ''zzz'')) = 0"
proof -
  have r: "pagination_rendered (history_run page3_events)"
    by (simp add: page3_state rendered_rows)
  have tp: "totalPages (history_run page3_events) = 3"
    by (simp add: page3_state totalPages_rows)
  have cp: "currentPage (history_run page3_events) = 3"
    by (simp add: page3_state rows_at_page_def)
  have prev: "currentPage (history_step (history_run page3_events) ClickPrevious) = 2"
    using r cp by (simp add: previousPage_def)
  have nxt: "currentPage (history_step (history_run page3_events) ClickNext) = 3"
    using r cp tp by simp
  have z: "totalPages (history_step (history_run page3_events) (SearchInput ''zzz'')) = 0"
    by (simp add: page3_state rows_at_page_def setSearchQuery_def totalPages_def
        filteredTransactions_def filterTransactions_def matchesFilter_def matchesSearch_def
        safe_rows_def sample_tx_def pageCount_div toLowerCase_def toLowerChar_def)
  have f: "totalPages (history_step (history_run page3_events) (FilterSelect Fraud)) = 0"
    using page3_fraud_filter(2) by (simp add: history_run_snoc)
  show ?thesis
    using C8_filter_change_keeps_page [of Fraud "history_run page3_events" "''zzz''"
        "FilterSelect Fraud" page3_events] r tp cp prev nxt z f
    by (simp add: setFilter_def setSearchQuery_def totalPages_click)
qed

subsection \<open>The table after a failed fetch\<close>

lemma length_mocks: "length (generateMockTransactions env) = 25"
  by (simp add: generateMockTransactions_def)

lemma failed_fetch_state:
  assumes "fetch_failed r"
  shows "fetchTransactions env r s
           = s\<lparr>transactions := generateMockTransactions env, loading := False\<rparr>"
  using assms
  by (cases r) (simp_all add: fetchTransactions_def fetchTransactions_begin_def Let_def)

lemma failed_fetch_page:
  assumes "fetch_failed r"
  shows "paginatedTransactions (fetchTransactions env r s)
           = pageOf (filterTransactions (filter_sel s) (searchQuery s)
                (generateMockTransactions env)) (currentPage s)"
  by (simp add: failed_fetch_state [OF assms] paginatedTransactions_def
        filteredTransactions_def)

lemma failed_fetch_unfiltered_page:
  assumes "fetch_failed r" and "filter_sel s = All" and "searchQuery s = []"
    and "1 \<le> currentPage s"
  shows "length (paginatedTransactions (fetchTransactions env r s))
           = min 10 (25 - 10 * nat (currentPage s - 1))"
  using assms(2-4)
  by (simp add: failed_fetch_page [OF assms(1)] filter_all_rows length_pageOf length_mocks)

lemma failed_fetch_first_pages:
  assumes "fetch_failed r" and "filter_sel s = All" and "searchQuery s = []"
    and "1 \<le> currentPage s" and "currentPage s \<le> 3"
  shows "length (paginatedTransactions (fetchTransactions env r s))
           = (if currentPage s = 3 then 5 else 10)"
proof -
  have "currentPage s = 1 \<or> currentPage s = 2 \<or> currentPage s = 3"
    using assms(4,5) by linarith
  then show ?thesis
    using failed_fetch_unfiltered_page [OF assms(1-4), of env] by auto
qed

lemma failed_fetch_late_pages:
  assumes "fetch_failed r" and "filter_sel s = All" and "searchQuery s = []"
    and "3 < currentPage s"
  shows "paginatedTransactions (fetchTransactions env r s) = []"
proof -
  have "1 \<le> currentPage s" using assms(4) by simp
  then have "length (paginatedTransactions (fetchTransactions env r s))
               = min 10 (25 - 10 * nat (currentPage s - 1))"
    using assms(1-3) by (simp add: failed_fetch_unfiltered_page)
  moreover have "25 \<le> 10 * nat (currentPage s - 1)" using assms(4) by linarith
  ultimately show ?thesis by simp
qed

lemma length_live_rows: "length live_rows = 50"
  by (simp add: live_rows_def)

lemma totalPages_live: "totalPages (live_at_page p) = 5"
  by (simp add: live_at_page_def totalPages_def filteredTransactions_def filter_all_rows
        pageCount_div length_live_rows)

lemma page_of_live:
  "paginatedTransactions (live_at_page p) = pageOf live_rows p"
  by (simp add: live_at_page_def paginatedTransactions_def filteredTransactions_def
        filter_all_rows)

lemma rendered_live:
  assumes "1 \<le> p" and "p \<le> 5"
  shows "pagination_rendered (live_at_page p)"
proof -
  have "pageOf live_rows p \<noteq> []"
    using assms nonempty_pages [OF assms(1), of live_rows]
    by (simp add: pageCount_div length_live_rows)
  then show ?thesis
    using totalPages_live [of p]
    by (simp add: pagination_rendered_def page_of_live) (simp add: live_at_page_def)
qed

lemma next_live:
  assumes "1 \<le> p" and "p < 5"
  shows "history_step (live_at_page p) ClickNext = live_at_page (p + 1)"
proof -
  have "pagination_rendered (live_at_page p)" using assms by (simp add: rendered_live)
  moreover have "currentPage (live_at_page p) \<noteq> totalPages (live_at_page p)"
    using assms by (simp add: totalPages_live) (simp add: live_at_page_def)
  ultimately have "history_step (live_at_page p) ClickNext = nextPage (live_at_page p)"
    by simp
  also have "\<dots> = live_at_page (p + 1)"
    using assms by (simp add: nextPage_def totalPages_live) (simp add: live_at_page_def)
  finally show ?thesis .
qed

lemma page5_state: "history_run page5_events = live_at_page 5"
proof -
  have "history_run
          [FetchStart, FetchDone demo_env (FetchResponse 200 (JsonValue (Some live_rows)))]
          = live_at_page 1"
    by (simp add: history_run_def initial_history_state_def fetchTransactions_def
          fetchTransactions_begin_def response_ok_def live_at_page_def)
  then have "history_run page5_events
               = history_step (history_step (history_step (history_step (live_at_page 1)
                   ClickNext) ClickNext) ClickNext) ClickNext"
    by (simp add: history_run_def page5_events_def del: history_step.simps)
  also have "\<dots> = live_at_page 5"
    using next_live [of 1] next_live [of 2] next_live [of 3] next_live [of 4] by simp
  finally show ?thesis .
qed

lemma failed_poll_run:
  "history_run (es @ failed_poll)
     = fetchTransactions demo_env FetchRejected (fetchTransactions_begin (history_run es))"
  by (simp add: history_run_def failed_poll_def)

text \<open>
  The statement of claim C7 speaks of the displayed list, and the table displays the
  current page of the stored list. On the fifth page of 50 rows (10 rows on screen) a
  rejected poll stores the 25 mock records and leaves the page index at 5, past the three
  pages of the mock list: the table is empty and the page buttons are gone.
\<close>

theorem C7_empty_page_counterexample:
  "length (paginatedTransactions (history_run page5_events)) = 10
   \<and> length (transactions (history_run (page5_events @ failed_poll))) = 25
   \<and> paginatedTransactions (history_run (page5_events @ failed_poll)) = []
   \<and> \<not> pagination_rendered (history_run (page5_events @ failed_poll))"
proof -
  have a: "length (paginatedTransactions (history_run page5_events)) = 10"
    by (simp add: page5_state page_of_live length_pageOf length_live_rows)
  have b: "length (transactions (history_run (page5_events @ failed_poll))) = 25"
    by (simp add: failed_poll_run fetch_failed_mock length_mocks)
  have c: "paginatedTransactions (history_run (page5_events @ failed_poll)) = []"
    unfolding failed_poll_run
    by (rule failed_fetch_late_pages)
       (simp_all add: page5_state fetchTransactions_begin_def live_at_page_def)
  then have d: "\<not> pagination_rendered (history_run (page5_events @ failed_poll))"
    by (simp add: pagination_rendered_def)
  from a b c d show ?thesis by simp
qed

text \<open>
  Claim C7, amended. When the fetch of the history is rejected, or answers with a status
  outside 200..299, the stored list becomes the output of \<open>generateMockTransactions\<close>:
  exactly 25 records, numbered \<open>mock_0\<close> to \<open>mock_24\<close>, each with a transaction id, a
  prediction, a confidence, a timestamp and input features with amount and time. No error
  is recorded, the loading flag returns to false, and the filter, the search string and
  the page index stay as they were. The table then shows the current page of the mock
  list under the current filter and search: 10 rows after a failure from the initial
  state; with the filter \<open>all\<close> and an empty search 10, 10 and 5 rows on pages 1, 2 and
  3, and no row on a later page.
\<close>

theorem C7_mock_history_on_failure:
  "transactions (fetchTransactions env FetchRejected s) = generateMockTransactions env
   \<and> (\<not> response_ok status \<longrightarrow>
        transactions (fetchTransactions env (FetchResponse status body) s)
          = generateMockTransactions env)
   \<and> length (generateMockTransactions env) = 25
   \<and> list_all full_shape (generateMockTransactions env)
   \<and> map id' (generateMockTransactions env) = map (\<lambda>i. ''mock_'' @ string_of_nat i) [0..<25]
   \<and> \<not> loading (fetchTransactions env r s)
   \<and> (fetch_failed r \<longrightarrow>
        transactions (fetchTransactions env r s) = generateMockTransactions env
        \<and> filter_sel (fetchTransactions env r s) = filter_sel s
        \<and> searchQuery (fetchTransactions env r s) = searchQuery s
        \<and> currentPage (fetchTransactions env r s) = currentPage s
        \<and> paginatedTransactions (fetchTransactions env r s)
            = pageOf (filterTransactions (filter_sel s) (searchQuery s)
                (generateMockTransactions env)) (currentPage s)
        \<and> length (paginatedTransactions (fetchTransactions env r initial_history_state)) = 10
        \<and> (filter_sel s = All \<and> searchQuery s = [] \<and> 1 \<le> currentPage s
             \<and> currentPage s \<le> 3 \<longrightarrow>
             length (paginatedTransactions (fetchTransactions env r s))
               = (if currentPage s = 3 then 5 else 10))
        \<and> (filter_sel s = All \<and> searchQuery s = [] \<and> 3 < currentPage s \<longrightarrow>
             paginatedTransactions (fetchTransactions env r s) = []))"
proof -
  have old: "transactions (fetchTransactions env FetchRejected s) = generateMockTransactions env
   \<and> (\<not> response_ok status \<longrightarrow>
        transactions (fetchTransactions env (FetchResponse status body) s)
          = generateMockTransactions env)
   \<and> length (generateMockTransactions env) = 25
   \<and> list_all full_shape (generateMockTransactions env)
   \<and> map id' (generateMockTransactions env) = map (\<lambda>i. ''mock_'' @ string_of_nat i) [0..<25]
   \<and> \<not> loading (fetchTransactions env r s)"
    by (simp add: fetch_failed_mock fetch_frame generateMockTransactions_def list_all_iff
          full_shape_mock)
       (simp add: mockTransaction_def)
  have new: "transactions (fetchTransactions env r s) = generateMockTransactions env
        \<and> filter_sel (fetchTransactions env r s) = filter_sel s
        \<and> searchQuery (fetchTransactions env r s) = searchQuery s
        \<and> currentPage (fetchTransactions env r s) = currentPage s
        \<and> paginatedTransactions (fetchTransactions env r s)
            = pageOf (filterTransactions (filter_sel s) (searchQuery s)
                (generateMockTransactions env)) (currentPage s)
        \<and> length (paginatedTransactions (fetchTransactions env r initial_history_state)) = 10
        \<and> (filter_sel s = All \<and> searchQuery s = [] \<and> 1 \<le> currentPage s
             \<and> currentPage s \<le> 3 \<longrightarrow>
             length (paginatedTransactions (fetchTransactions env r s))
               = (if currentPage s = 3 then 5 else 10))
        \<and> (filter_sel s = All \<and> searchQuery s = [] \<and> 3 < currentPage s \<longrightarrow>
             paginatedTransactions (fetchTransactions env r s) = [])"
    if f: "fetch_failed r"
  proof -
    have i: "length (paginatedTransactions (fetchTransactions env r initial_history_state)) = 10"
      using failed_fetch_first_pages [OF f, of initial_history_state env]
      by (simp add: initial_history_state_def)
    show ?thesis
      using i failed_fetch_page [OF f, of env s] failed_fetch_first_pages [OF f, of s env]
        failed_fetch_late_pages [OF f, of s env]
      by (simp add: failed_fetch_state [OF f])
  qed
  from old new show ?thesis by blast
qed

theorem C7_mock_history_witness:
  "\<not> response_ok 500
   \<and> fetch_failed (FetchResponse 500 (JsonValue None) :: transaction list option fetch_result)
   \<and> length (transactions
        (fetchTransactions demo_env (FetchResponse 500 (JsonValue None)) initial_history_state))
       = 25
   \<and> transactions
        (fetchTransactions demo_env (FetchResponse 500 (JsonValue None)) initial_history_state)
        ! 7 = mockTransaction demo_env 7
   \<and> transaction.transaction_id (mockTransaction demo_env 7) = Some ''txn_i''
   \<and> id' (mockTransaction demo_env 7) = ''mock_7''
   \<and> length (paginatedTransactions
        (fetchTransactions demo_env (FetchResponse 500 (JsonValue None)) initial_history_state))
       = 10
   \<and> filter_sel (rows_at_page 3) = All \<and> searchQuery (rows_at_page 3) = []
   \<and> currentPage (rows_at_page 3) = 3
   \<and> length (paginatedTransactions
        (fetchTransactions demo_env (FetchResponse 500 (JsonValue None)) (rows_at_page 3)))
       = 5"
proof -
  have ok: "\<not> response_ok 500" by (simp add: response_ok_def)
  have f: "fetch_failed (FetchResponse 500 (JsonValue None) :: transaction list option fetch_result)"
    using ok by simp
  have m: "generateMockTransactions demo_env ! 7 = mockTransaction demo_env 7"
    by (simp add: generateMockTransactions_def)
  have i: "transaction.transaction_id (mockTransaction demo_env 7) = Some ''txn_i''"
    "id' (mockTransaction demo_env 7) = ''mock_7''"
    by (simp_all add: mockTransaction_def demo_env_def js_substring_def string_of_nat.simps
          digit_char_def)
  have r: "filter_sel (rows_at_page 3) = All" "searchQuery (rows_at_page 3) = []"
    "currentPage (rows_at_page 3) = 3"
    by (simp_all add: rows_at_page_def)
  let ?r = "FetchResponse 500 (JsonValue None) :: transaction list option fetch_result"
  note first = C7_mock_history_on_failure [of demo_env initial_history_state 500 "JsonValue None" ?r]
  note third = C7_mock_history_on_failure [of demo_env "rows_at_page 3" 500 "JsonValue None" ?r]
  have t: "transactions (fetchTransactions demo_env ?r initial_history_state)
             = generateMockTransactions demo_env"
    using first ok by blast
  have l: "length (generateMockTransactions demo_env) = 25"
    using first by blast
  have p1: "length (paginatedTransactions (fetchTransactions demo_env ?r initial_history_state))
              = 10"
    using first f by blast
  have "length (paginatedTransactions (fetchTransactions demo_env ?r (rows_at_page 3)))
          = (if currentPage (rows_at_page 3) = 3 then 5 else 10)"
    using third f r by force
  then have p3: "length (paginatedTransactions
                   (fetchTransactions demo_env ?r (rows_at_page 3))) = 5"
    using r by simp
  show ?thesis
    using ok f t l m i p1 r p3 by simp
qed

end
